theory Spec2Isabelle
  imports Complex_Main
begin

section \<open>Python values, failures and arrays\<close>

text \<open>
  The program is \<^verbatim>\<open>nls/model.py\<close>, a Python 2 module on top of numpy and scipy.
  Floating-point numbers are modelled by the reals (exact arithmetic), a raised exception
  by the left injection of a sum type, an attribute of an object by a record field. The
  one place where the rounding of doubles decides more than a last digit is the number of
  samples of \<^verbatim>\<open>arange\<close>; there the rounding is modelled.
\<close>

datatype error =
    KeyError string
  | IndexError
  | ZeroDivisionError
  | ValueError
  | TypeError
  | AttributeError
  | IOError

text \<open>
  Sequencing of computations that may raise: the first exception ends the computation.
\<close>

definition err_bind :: "error + 'a \<Rightarrow> ('a \<Rightarrow> error + 'b) \<Rightarrow> error + 'b" where
  "err_bind m f = (case m of Inl e \<Rightarrow> Inl e | Inr v \<Rightarrow> f v)"

text \<open>
  A Python number of a parameter dictionary is an \<^verbatim>\<open>int\<close> or a \<^verbatim>\<open>float\<close>.
  The module does not import \<^verbatim>\<open>division\<close> from \<^verbatim>\<open>__future__\<close>, so \<^verbatim>\<open>/\<close>
  between two ints is floor division; on a zero divisor it raises.
\<close>

datatype pynum = PyInt int | PyFloat real

fun py_real :: "pynum \<Rightarrow> real" where
  "py_real (PyInt i) = real_of_int i"
| "py_real (PyFloat r) = r"

fun py_mul :: "pynum \<Rightarrow> pynum \<Rightarrow> pynum" where
  "py_mul (PyInt a) (PyInt b) = PyInt (a * b)"
| "py_mul a b = PyFloat (py_real a * py_real b)"

fun py_div :: "pynum \<Rightarrow> pynum \<Rightarrow> error + pynum" where
  "py_div (PyInt a) (PyInt b) = (if b = 0 then Inl ZeroDivisionError else Inr (PyInt (a div b)))"
| "py_div a b =
     (if py_real b = 0 then Inl ZeroDivisionError else Inr (PyFloat (py_real a / py_real b)))"

fun is_int :: "pynum \<Rightarrow> bool" where
  "is_int (PyInt i) = True"
| "is_int (PyFloat r) = False"

text \<open>\<^verbatim>\<open>d[k]\<close> on a dictionary: a missing key raises \<^verbatim>\<open>KeyError\<close>.\<close>

definition getitem :: "(string \<rightharpoonup> 'v) \<Rightarrow> string \<Rightarrow> error + 'v" where
  "getitem d k = (case d k of None \<Rightarrow> Inl (KeyError k) | Some v \<Rightarrow> Inr v)"

text \<open>
  A numpy array of one or two dimensions; a two-dimensional array is the list of its rows.
  \<^verbatim>\<open>len\<close> is the size of the first dimension.
\<close>

datatype 'a ndarray = Arr1 "'a list" | Arr2 "'a list list"

fun np_len :: "'a ndarray \<Rightarrow> nat" where
  "np_len (Arr1 xs) = length xs"
| "np_len (Arr2 rows) = length rows"

fun np_map :: "('a \<Rightarrow> 'b) \<Rightarrow> 'a ndarray \<Rightarrow> 'b ndarray" where
  "np_map f (Arr1 xs) = Arr1 (map f xs)"
| "np_map f (Arr2 rows) = Arr2 (map (map f) rows)"

text \<open>
  An attribute that holds a Python float at first and an array later.
\<close>

datatype 'a scalar_or_array = Scalar 'a | Array "'a ndarray"

text \<open>\<^verbatim>\<open>ones(n)\<close> and \<^verbatim>\<open>ones((n, n))\<close>.\<close>

definition ones :: "nat \<Rightarrow> real list" where
  "ones n = replicate n 1"

definition ones2 :: "nat \<Rightarrow> nat \<Rightarrow> real list list" where
  "ones2 r c = replicate r (replicate c 1)"

definition zeros :: "nat \<Rightarrow> real list" where
  "zeros n = replicate n 0"

text \<open>
  \<^verbatim>\<open>linspace(start, stop, num)\<close>: \<open>num\<close> evenly spaced samples, both end points
  included. With one sample it is \<open>start\<close> alone, with none the empty array.
\<close>

definition linspace :: "real \<Rightarrow> real \<Rightarrow> nat \<Rightarrow> real list" where
  "linspace start stop num =
     (if num = 1 then [start]
      else map (\<lambda>i. start + real i * ((stop - start) / real (num - 1))) [0..<num])"

text \<open>
  Rounding to the nearest double, ties to the even significand of 53 bits. The range of
  the exponent is not bounded here: overflow and subnormal numbers are not modelled.
\<close>

definition round_half_even :: "real \<Rightarrow> int" where
  "round_half_even x =
     (let f = \<lfloor>x\<rfloor> in
      if x - of_int f < 1 / 2 then f
      else if 1 / 2 < x - of_int f then f + 1
      else if even f then f else f + 1)"

definition fl :: "real \<Rightarrow> real" where
  "fl x =
     (if x = 0 then 0
      else (let e = \<lfloor>log 2 \<bar>x\<bar>\<rfloor> - 52
            in of_int (round_half_even (x / 2 powr of_int e)) * 2 powr of_int e))"

text \<open>
  \<^verbatim>\<open>arange(start, stop, step)\<close> on Python floats: \<open>ceil((stop - start) / step)\<close>
  samples from \<open>start\<close> in steps of \<open>step\<close>. numpy computes the difference and the
  quotient in doubles before it takes the ceiling, so a quotient that is a whole number
  over the reals can round to just above it and give one sample more.
\<close>

definition arange_length :: "real \<Rightarrow> real \<Rightarrow> real \<Rightarrow> nat" where
  "arange_length start stop step = nat \<lceil>fl (fl (stop - start) / step)\<rceil>"

definition arange :: "real \<Rightarrow> real \<Rightarrow> real \<Rightarrow> error + real list" where
  "arange start stop step =
     (if step = 0 then Inl ZeroDivisionError
      else Inr (map (\<lambda>i. start + real i * step) [0..<arange_length start stop step]))"

text \<open>
  \<^verbatim>\<open>meshgrid(x, y)\<close> with the default \<^verbatim>\<open>xy\<close> indexing: both results have one row per
  element of \<open>y\<close> and one column per element of \<open>x\<close>.
\<close>

definition meshgrid :: "real list \<Rightarrow> real list \<Rightarrow> real list list \<times> real list list" where
  "meshgrid x y = (replicate (length y) x, map (\<lambda>v. replicate (length x) v) y)"

text \<open>\<^verbatim>\<open>a.reshape(n)\<close> of a two-dimensional array: the rows in order, if the sizes agree.\<close>

definition reshape1 :: "nat \<Rightarrow> 'a list list \<Rightarrow> error + 'a list" where
  "reshape1 n rows = (if length (concat rows) = n then Inr (concat rows) else Inl ValueError)"

section \<open>Pumping profiles\<close>

text \<open>
  Modelled from the spec: the module \<^verbatim>\<open>nls/pumping.py\<close> is missing. A profile is
  "evaluable over a scalar 1D coordinate array and over a meshed pair of 2D coordinate
  arrays, returning a same-shaped intensity array in both cases": it is given by its value
  at a radius and its value at a point of the plane, applied element by element.
\<close>

record profile =
  at_radius :: "real \<Rightarrow> real"
  at_point :: "real \<Rightarrow> real \<Rightarrow> real"

definition call1 :: "profile \<Rightarrow> real list \<Rightarrow> real list" where
  "call1 p x = map (at_radius p) x"

definition call2 :: "profile \<Rightarrow> real list list \<Rightarrow> real list list \<Rightarrow> real list list" where
  "call2 p x y = map2 (map2 (at_point p)) x y"

section \<open>The class Solution\<close>

text \<open>
  The attributes \<^verbatim>\<open>desc\<close> and \<^verbatim>\<open>label\<close> exist only once \<^verbatim>\<open>restore\<close> has
  assigned them; \<^verbatim>\<open>solution\<close> is \<^verbatim>\<open>None\<close> until a solver has set it. The number
  of nodes is a natural number, a field an array of complex numbers. The coefficients are
  a one-dimensional array and the elapsed time a float as the constructor makes them, and
  two-dimensional arrays once \<^verbatim>\<open>restore\<close> has assigned them.
\<close>

record Solution =
  dt :: real
  dx :: real
  order :: int
  num_nodes :: nat
  num_iters :: int
  pumping :: profile
  init_sol :: "complex ndarray"
  solution :: "complex ndarray option"
  originals :: "string \<rightharpoonup> pynum"
  coeffs :: "real ndarray"
  elapsed_time :: "real scalar_or_array"
  desc :: "string option"
  label :: "string option"

definition t0 :: real where
  "t0 = 1"

text \<open>
  \<^verbatim>\<open>Solution.__init__\<close>. The four coefficients that read the parameter dictionary are
  computed in the order of the source lines, and within a line from left to right.
\<close>

definition coeff2 :: "(string \<rightharpoonup> pynum) \<Rightarrow> error + pynum" where
  "coeff2 orig =
     err_bind (getitem orig ''R'') (\<lambda>R.
     err_bind (getitem orig ''tilde_g'') (\<lambda>tilde_g.
     py_div R (py_mul (PyFloat 4) tilde_g)))"

definition coeff3 :: "(string \<rightharpoonup> pynum) \<Rightarrow> error + pynum" where
  "coeff3 orig =
     err_bind (getitem orig ''gamma'') (\<lambda>gamma.
     py_div (py_mul gamma (PyFloat t0)) (PyInt 2))"

definition coeff11 :: "(string \<rightharpoonup> pynum) \<Rightarrow> error + pynum" where
  "coeff11 orig =
     err_bind (getitem orig ''tilde_g'') (\<lambda>tilde_g.
     err_bind (getitem orig ''gamma_R'') (\<lambda>gamma_R.
     py_div (py_mul (py_mul (PyFloat 2) tilde_g) (PyFloat t0)) gamma_R))"

definition coeff13 :: "(string \<rightharpoonup> pynum) \<Rightarrow> error + pynum" where
  "coeff13 orig =
     err_bind (getitem orig ''R'') (\<lambda>R.
     err_bind (getitem orig ''gamma_R'') (\<lambda>gamma_R.
     err_bind (getitem orig ''g'') (\<lambda>g.
     py_div R (py_mul gamma_R g))))"

definition Solution_init ::
  "real \<Rightarrow> real \<Rightarrow> nat \<Rightarrow> int \<Rightarrow> int \<Rightarrow> profile \<Rightarrow> (string \<rightharpoonup> pynum) \<Rightarrow> complex ndarray
     \<Rightarrow> error + Solution" where
  "Solution_init dt0 dx0 num_nodes0 order0 num_iters0 pumping0 originals0 init_solution =
     (let c = zeros 23;
          c = c[0 := 1];
          c = c[1 := 1]
      in
      err_bind (coeff2 originals0) (\<lambda>c2. let c = c[2 := py_real c2] in
      err_bind (coeff3 originals0) (\<lambda>c3. let c = c[3 := py_real c3];
          c = c[4 := 1];
          c = c[5 := 1];
          c = c[10 := 0] in
      err_bind (coeff11 originals0) (\<lambda>c11. let c = c[11 := py_real c11];
          c = c[12 := 1] in
      err_bind (coeff13 originals0) (\<lambda>c13. let c = c[13 := py_real c13];
          c = c[14 := 0] in
      Inr \<lparr> dt = dt0, dx = dx0, order = order0, num_nodes = num_nodes0,
            num_iters = num_iters0, pumping = pumping0, init_sol = init_solution,
            solution = None, originals = originals0, coeffs = Arr1 c,
            elapsed_time = Scalar 0, desc = None, label = None \<rparr>)))))"

text \<open>
  \<^verbatim>\<open>Solution.getPumping\<close>: the comparison of the squared node count with the length of
  the initial field chooses between the centred square mesh and the radial samples.
  \<^verbatim>\<open>meshgrid(x)\<close> of one array is that array alone, so the radial branch calls the
  profile on \<open>x\<close>.
\<close>

definition getPumping :: "Solution \<Rightarrow> error + real list" where
  "getPumping s =
     (if (num_nodes s)\<^sup>2 = np_len (init_sol s) then
        (let right = real (num_nodes s) * dx s / 2;
             left = - right;
             x = linspace left right (num_nodes s);
             grid = meshgrid x x
         in reshape1 ((num_nodes s)\<^sup>2) (call2 (pumping s) (fst grid) (snd grid)))
      else
        (let right = real (num_nodes s) * dx s;
             left = 0;
             x = linspace left right (num_nodes s)
         in Inr (call1 (pumping s) x)))"

definition setPumping :: "profile \<Rightarrow> Solution \<Rightarrow> Solution" where
  "setPumping p s = s\<lparr>pumping := p\<rparr>"

text \<open>The samples of a profile on the square mesh over \<open>xs\<close>, row by row.\<close>

definition mesh_samples :: "profile \<Rightarrow> real list \<Rightarrow> real list" where
  "mesh_samples p xs = concat (map (\<lambda>y. map (\<lambda>x. at_point p x y) xs) xs)"

section \<open>Visualisation\<close>

text \<open>
  Division inside a float array does not raise: a zero divisor gives an infinity or a
  NaN, here the one value \<open>NonFinite\<close>.
\<close>

datatype npfloat = Finite real | NonFinite

definition true_divide :: "real \<Rightarrow> real \<Rightarrow> npfloat" where
  "true_divide a b = (if b = 0 then NonFinite else Finite (a / b))"

text \<open>
  Broadcasting of a binary operation over two one-dimensional arrays: equal lengths, or
  one of them of length one; anything else raises \<^verbatim>\<open>ValueError\<close>.
\<close>

definition broadcast1 :: "('a \<Rightarrow> 'b \<Rightarrow> 'c) \<Rightarrow> 'a list \<Rightarrow> 'b list \<Rightarrow> error + 'c list" where
  "broadcast1 f xs ys =
     (if length xs = length ys then Inr (map2 f xs ys)
      else if length xs = 1 then Inr (map (f (hd xs)) ys)
      else if length ys = 1 then Inr (map (\<lambda>x. f x (hd ys)) xs)
      else Inl ValueError)"

fun sequence :: "(error + 'a) list \<Rightarrow> error + 'a list" where
  "sequence [] = Inr []"
| "sequence (m # ms) = err_bind m (\<lambda>v. err_bind (sequence ms) (\<lambda>vs. Inr (v # vs)))"

text \<open>
  A binary operation between a one-dimensional array \<open>p\<close> and an array \<open>d\<close>: against a
  two-dimensional \<open>d\<close> it is broadcast along every row. An array without rows has no
  columns either.
\<close>

fun row_op :: "('a \<Rightarrow> 'b \<Rightarrow> 'c) \<Rightarrow> 'a list \<Rightarrow> 'b ndarray \<Rightarrow> error + 'c ndarray" where
  "row_op f p (Arr1 d) = err_bind (broadcast1 f p d) (\<lambda>r. Inr (Arr1 r))"
| "row_op f p (Arr2 rows) =
     (if rows = [] then (if length p \<le> 1 then Inr (Arr2 []) else Inl ValueError)
      else err_bind (sequence (map (broadcast1 f p) rows)) (\<lambda>r. Inr (Arr2 r)))"

text \<open>
  \<^verbatim>\<open>coeffs[i]\<close>, for an index that is not negative: an entry of a one-dimensional
  array, a row of a two-dimensional one. The entry is a scalar. In the products, the sum
  and the quotient of \<^verbatim>\<open>visualize\<close> the other operand is always an array, and there a
  scalar broadcasts as the array of that one element does; it is given as such.
\<close>

definition coeff_row :: "real ndarray \<Rightarrow> nat \<Rightarrow> error + real list" where
  "coeff_row c i =
     (case c of
        Arr1 xs \<Rightarrow> if i < length xs then Inr [xs ! i] else Inl IndexError
      | Arr2 rows \<Rightarrow> if i < length rows then Inr (rows ! i) else Inl IndexError)"

text \<open>\<^verbatim>\<open>(z.conj() * z).real\<close>, the density of the condensate at one node.\<close>

definition density :: "complex \<Rightarrow> real" where
  "density z = Re (cnj z * z)"

text \<open>
  \<^verbatim>\<open>Solution.visualize\<close> computes four arrays and hands them to matplotlib. The model
  returns the arrays; the drawing itself is not modelled. The operands are evaluated from
  left to right: \<^verbatim>\<open>coeffs[11] * p\<close> first, then \<^verbatim>\<open>coeffs[12] + coeffs[13] * u\<close>, then the
  quotient.
\<close>

record plots =
  plot_x :: "real list"
  plot_p :: "real list"
  plot_u :: "real ndarray"
  plot_n :: "npfloat ndarray"

definition visualize :: "Solution \<Rightarrow> error + plots" where
  "visualize s =
     err_bind (arange 0 (fl (dx s * real (num_nodes s))) (dx s)) (\<lambda>x.
     let p = call1 (pumping s) x in
     err_bind (case solution s of
                 None \<Rightarrow> Inl AttributeError
               | Some f \<Rightarrow> Inr (np_map density f)) (\<lambda>u.
     err_bind (coeff_row (coeffs s) 11) (\<lambda>c11.
     err_bind (broadcast1 (*) c11 p) (\<lambda>c11p.
     err_bind (coeff_row (coeffs s) 12) (\<lambda>c12.
     err_bind (coeff_row (coeffs s) 13) (\<lambda>c13.
     err_bind (row_op (*) c13 u) (\<lambda>c13u.
     err_bind (row_op (+) c12 c13u) (\<lambda>d.
     err_bind (row_op true_divide c11p d) (\<lambda>n.
     Inr \<lparr> plot_x = x, plot_p = p, plot_u = u, plot_n = n \<rparr>)))))))))"


section \<open>Persistence\<close>

text \<open>
  \<^verbatim>\<open>savemat\<close> and \<^verbatim>\<open>loadmat\<close> belong to scipy. \<^verbatim>\<open>savemat\<close> receives a
  dictionary; a file holds variables, and \<^verbatim>\<open>loadmat\<close> returns them: every array with at
  least two dimensions (a float as one row of one entry, a one-dimensional array as one
  row), a string as a character array (no element for the empty string, one element
  otherwise). A variable that is not in the file is \<open>None\<close> here.
\<close>

record matfile =
  mat_desc :: string
  mat_dimlesses :: "real ndarray"
  mat_elapsed_time :: "real scalar_or_array"
  mat_label :: string
  mat_originals :: "string \<rightharpoonup> pynum"
  mat_pumping :: "real list"
  mat_solution :: "complex ndarray option"

record matdata =
  var_desc :: "string list option"
  var_dimlesses :: "real list list option"
  var_elapsed_time :: "real list list option"
  var_label :: "string list option"
  var_originals :: "(string \<rightharpoonup> pynum) option"
  var_pumping :: "real list list option"
  var_solution :: "complex list list option"

type_synonym filesystem = "string \<rightharpoonup> matdata"

fun at_least_2d :: "'a ndarray \<Rightarrow> 'a list list" where
  "at_least_2d (Arr1 xs) = [xs]"
| "at_least_2d (Arr2 rows) = rows"

fun value_2d :: "'a scalar_or_array \<Rightarrow> 'a list list" where
  "value_2d (Scalar x) = [[x]]"
| "value_2d (Array a) = at_least_2d a"

definition char_array :: "string \<Rightarrow> string list" where
  "char_array str = (if str = [] then [] else [str])"

text \<open>
  The variables of a dictionary apart from \<^verbatim>\<open>solution\<close>, and those of them whose names
  are in a given set.
\<close>

definition other_variables :: "matfile \<Rightarrow> matdata" where
  "other_variables m =
     \<lparr> var_desc = Some (char_array (mat_desc m)),
       var_dimlesses = Some (at_least_2d (mat_dimlesses m)),
       var_elapsed_time = Some (value_2d (mat_elapsed_time m)),
       var_label = Some (char_array (mat_label m)),
       var_originals = Some (mat_originals m),
       var_pumping = Some [mat_pumping m],
       var_solution = None \<rparr>"

definition only_variables :: "string set \<Rightarrow> matdata \<Rightarrow> matdata" where
  "only_variables names v =
     \<lparr> var_desc = (if ''desc'' \<in> names then var_desc v else None),
       var_dimlesses = (if ''dimlesses'' \<in> names then var_dimlesses v else None),
       var_elapsed_time = (if ''elapsed_time'' \<in> names then var_elapsed_time v else None),
       var_label = (if ''label'' \<in> names then var_label v else None),
       var_originals = (if ''originals'' \<in> names then var_originals v else None),
       var_pumping = (if ''pumping'' \<in> names then var_pumping v else None),
       var_solution = (if ''solution'' \<in> names then var_solution v else None) \<rparr>"

text \<open>
  \<^verbatim>\<open>savemat\<close> writes the variables in the order in which the dictionary yields them and
  raises \<^verbatim>\<open>TypeError\<close> at a value \<^verbatim>\<open>None\<close>, which leaves a file with the variables
  written until then. Python 2 does not specify the order of a dictionary: the set
  \<open>earlier\<close> of the names that come before \<^verbatim>\<open>solution\<close> is a parameter. The result is
  the exception, if any, and the file system after the call.
\<close>

definition savemat ::
  "filesystem \<Rightarrow> string set \<Rightarrow> string \<Rightarrow> matfile \<Rightarrow> error option \<times> filesystem" where
  "savemat fs earlier filename m =
     (case mat_solution m of
        None \<Rightarrow>
          (Some TypeError,
           fs(filename \<mapsto> only_variables (earlier - {''solution''}) (other_variables m)))
      | Some f \<Rightarrow>
          (None, fs(filename \<mapsto> (other_variables m)\<lparr>var_solution := Some (at_least_2d f)\<rparr>)))"

definition loadmat :: "filesystem \<Rightarrow> string \<Rightarrow> error + matdata" where
  "loadmat fs filename = (case fs filename of None \<Rightarrow> Inl IOError | Some v \<Rightarrow> Inr v)"

text \<open>
  The file name of \<^verbatim>\<open>store\<close>: the one given unless it is \<^verbatim>\<open>None\<close> or empty, else the
  date with its blanks replaced by underscores.
\<close>

definition store_filename :: "string option \<Rightarrow> string \<Rightarrow> string" where
  "store_filename filename date =
     (case filename of
        Some f \<Rightarrow> if f \<noteq> [] then f
                  else map (\<lambda>c. if c = CHR '' '' then CHR ''_'' else c) date @ ''.mat''
      | None \<Rightarrow> map (\<lambda>c. if c = CHR '' '' then CHR ''_'' else c) date @ ''.mat'')"

definition store ::
  "filesystem \<Rightarrow> string set \<Rightarrow> Solution \<Rightarrow> string option \<Rightarrow> string \<Rightarrow> string \<Rightarrow> string
     \<Rightarrow> error option \<times> filesystem" where
  "store fs earlier s filename label0 desc0 date =
     (let filename = store_filename filename date in
      case getPumping s of
        Inl e \<Rightarrow> (Some e, fs)
      | Inr sample \<Rightarrow>
          savemat fs earlier filename
            \<lparr> mat_desc = desc0, mat_dimlesses = coeffs s, mat_elapsed_time = elapsed_time s,
              mat_label = label0, mat_originals = originals s, mat_pumping = sample,
              mat_solution = solution s \<rparr>)"

text \<open>
  \<^verbatim>\<open>Solution.restore\<close> assigns its attributes one after the other, so an exception leaves
  the object with the assignments made so far. The result is the exception, if any, and
  the object after the call. \<^verbatim>\<open>.T\<close> is taken of arrays that \<^verbatim>\<open>loadmat\<close> has made
  two-dimensional.
\<close>

definition restore :: "filesystem \<Rightarrow> string \<Rightarrow> Solution \<Rightarrow> error option \<times> Solution" where
  "restore fs filename s =
     (case loadmat fs filename of
        Inl e \<Rightarrow> (Some e, s)
      | Inr v \<Rightarrow>
     (case var_desc v of
        None \<Rightarrow> (Some (KeyError ''desc''), s)
      | Some d \<Rightarrow>
          let s = s\<lparr>desc := Some (if length d \<noteq> 0 then d ! 0 else [])\<rparr> in
     (case var_dimlesses v of
        None \<Rightarrow> (Some (KeyError ''dimlesses''), s)
      | Some c \<Rightarrow>
          let s = s\<lparr>coeffs := Arr2 (transpose c)\<rparr> in
     (case var_elapsed_time v of
        None \<Rightarrow> (Some (KeyError ''elapsed_time''), s)
      | Some t \<Rightarrow>
          let s = s\<lparr>elapsed_time := Array (Arr2 t)\<rparr> in
     (case var_label v of
        None \<Rightarrow> (Some (KeyError ''label''), s)
      | Some l \<Rightarrow>
          let s = s\<lparr>label := Some (if length l \<noteq> 0 then l ! 0 else [])\<rparr>;
              s = s\<lparr>originals := Map.empty\<rparr> in
     (case var_solution v of
        None \<Rightarrow> (Some (KeyError ''solution''), s)
      | Some a \<Rightarrow> (None, s\<lparr>solution := Some (Arr2 (transpose a))\<rparr>)))))))"

section \<open>The factory\<close>

text \<open>
  The initial field \<^verbatim>\<open>u0\<close> handed to the factory: a Python \<^verbatim>\<open>int\<close>, \<^verbatim>\<open>float\<close> or
  \<^verbatim>\<open>complex\<close>, or an array. The keyword arguments are a record of optional entries.
\<close>

datatype u0_value = U0Int int | U0Float real | U0Complex complex | U0Array "complex ndarray"

record kwargs =
  kw_dx :: "real option"
  kw_dt :: "real option"
  kw_t0 :: "real option"
  kw_u0 :: "u0_value option"
  kw_order :: "int option"
  kw_pumping :: "profile option"
  kw_num_nodes :: "nat option"
  kw_num_iters :: "int option"
  kw_original_params :: "(string \<rightharpoonup> pynum) option"

text \<open>
  The module \<^verbatim>\<open>nls/solver.py\<close> is missing: a solver is represented by its class, and a
  model by the solution it owns and the class of its solver.
\<close>

datatype solver_class = Solver1D | Solver2D

record Model =
  model_solution :: Solution
  model_solver :: solver_class

text \<open>
  \<^verbatim>\<open>Model1D.__init__\<close> and \<^verbatim>\<open>Model2D.__init__\<close> read the keyword arguments after the
  factory has filled in the defaults; only \<^verbatim>\<open>original_params\<close> can still be missing.
\<close>

definition Model_init ::
  "solver_class \<Rightarrow> real \<Rightarrow> real \<Rightarrow> int \<Rightarrow> nat \<Rightarrow> int \<Rightarrow> profile \<Rightarrow> (string \<rightharpoonup> pynum) option
     \<Rightarrow> complex ndarray \<Rightarrow> error + Model" where
  "Model_init cls dt0 dx0 order0 num_nodes0 num_iters0 pumping0 original_params u0 =
     (case original_params of
        None \<Rightarrow> Inl (KeyError ''original_params'')
      | Some orig \<Rightarrow>
          err_bind (Solution_init dt0 dx0 num_nodes0 order0 num_iters0 pumping0 orig u0) (\<lambda>sol.
          Inr \<lparr> model_solution = sol, model_solver = cls \<rparr>))"

text \<open>
  \<^verbatim>\<open>type(u0) in (int, float, complex)\<close> holds for the three scalar cases, where
  \<^verbatim>\<open>u0\<close> becomes \<^verbatim>\<open>u0 * ones(...)\<close>; an array is left as it is. The
  default pumping \<^verbatim>\<open>GaussianPumping()\<close> of the missing module is a parameter.
\<close>

fun scalar_times :: "u0_value \<Rightarrow> real ndarray \<Rightarrow> complex ndarray" where
  "scalar_times (U0Int i) a = np_map (\<lambda>v. of_int i * complex_of_real v) a"
| "scalar_times (U0Float r) a = np_map (\<lambda>v. complex_of_real r * complex_of_real v) a"
| "scalar_times (U0Complex c) a = np_map (\<lambda>v. c * complex_of_real v) a"
| "scalar_times (U0Array u) a = u"

definition fabricateModel1D :: "profile \<Rightarrow> kwargs \<Rightarrow> error + Model" where
  "fabricateModel1D GaussianPumping kw =
     (let dx0 = (case kw_dx kw of None \<Rightarrow> 1 / 10 | Some v \<Rightarrow> v);
          dt0 = (case kw_dt kw of None \<Rightarrow> 1 / 1000 | Some v \<Rightarrow> v);
          t00 = (case kw_t0 kw of None \<Rightarrow> 0 | Some v \<Rightarrow> v);
          u0 = (case kw_u0 kw of None \<Rightarrow> U0Float (1 / 10) | Some v \<Rightarrow> v);
          order0 = (case kw_order kw of None \<Rightarrow> 5 | Some v \<Rightarrow> v);
          pumping0 = (case kw_pumping kw of None \<Rightarrow> GaussianPumping | Some v \<Rightarrow> v);
          num_nodes0 = (case kw_num_nodes kw of None \<Rightarrow> 1000 | Some v \<Rightarrow> v);
          num_iters0 = (case kw_num_iters kw of None \<Rightarrow> 100000 | Some v \<Rightarrow> v);
          u0 = scalar_times u0 (Arr1 (ones num_nodes0))
      in Model_init Solver1D dt0 dx0 order0 num_nodes0 num_iters0 pumping0
           (kw_original_params kw) u0)"

definition fabricateModel2D :: "profile \<Rightarrow> kwargs \<Rightarrow> error + Model" where
  "fabricateModel2D GaussianPumping kw =
     (let dx0 = (case kw_dx kw of None \<Rightarrow> 1 / 10 | Some v \<Rightarrow> v);
          dt0 = (case kw_dt kw of None \<Rightarrow> 1 / 1000 | Some v \<Rightarrow> v);
          t00 = (case kw_t0 kw of None \<Rightarrow> 0 | Some v \<Rightarrow> v);
          u0 = (case kw_u0 kw of None \<Rightarrow> U0Float (1 / 10) | Some v \<Rightarrow> v);
          order0 = (case kw_order kw of None \<Rightarrow> 3 | Some v \<Rightarrow> v);
          pumping0 = (case kw_pumping kw of None \<Rightarrow> GaussianPumping | Some v \<Rightarrow> v);
          num_nodes0 = (case kw_num_nodes kw of None \<Rightarrow> 40 | Some v \<Rightarrow> v);
          num_iters0 = (case kw_num_iters kw of None \<Rightarrow> 1000 | Some v \<Rightarrow> v);
          u0 = scalar_times u0 (Arr2 (ones2 num_nodes0 num_nodes0))
      in Model_init Solver2D dt0 dx0 order0 num_nodes0 num_iters0 pumping0
           (kw_original_params kw) u0)"

section \<open>Sequences of calls\<close>

text \<open>
  A history of calls on one object: \<^verbatim>\<open>setPumping\<close> assigns the attribute,
  \<^verbatim>\<open>getPumping\<close> assigns nothing and returns its sample.
\<close>

datatype call = SetPumping profile | GetPumping

fun run_call :: "call \<Rightarrow> Solution \<Rightarrow> (error + real list) option \<times> Solution" where
  "run_call (SetPumping p) s = (None, setPumping p s)"
| "run_call GetPumping s = (Some (getPumping s), s)"

fun run_calls :: "call list \<Rightarrow> Solution \<Rightarrow> Solution" where
  "run_calls [] s = s"
| "run_calls (c # cs) s = run_calls cs (snd (run_call c s))"

section \<open>Concrete inputs\<close>

text \<open>
  The parameters of the script \<^verbatim>\<open>solve2d.py\<close>, the same without \<^verbatim>\<open>g\<close>, a
  profile whose samples show the coordinates it was called on, a solution object around a
  given field, and keyword arguments for the factory.
\<close>

definition params_2d :: "string \<rightharpoonup> pynum" where
  "params_2d = [''R'' \<mapsto> PyFloat (5 / 100), ''gamma'' \<mapsto> PyFloat (566 / 1000),
     ''g'' \<mapsto> PyFloat (1 / 1000), ''tilde_g'' \<mapsto> PyFloat (11 / 1000), ''gamma_R'' \<mapsto> PyInt 10]"

definition linear_profile :: profile where
  "linear_profile = \<lparr> at_radius = (\<lambda>r. r), at_point = (\<lambda>x y. x + 10 * y) \<rparr>"

definition example_solution :: "nat \<Rightarrow> complex ndarray \<Rightarrow> Solution" where
  "example_solution n f =
     \<lparr> dt = 1 / 1000, dx = 1, order = 5, num_nodes = n, num_iters = 0,
       pumping = linear_profile, init_sol = f, solution = Some f,
       originals = params_2d, coeffs = Arr1 [1, 1, 25 / 22, 283 / 1000, 1, 1, 0, 0, 0, 0,
         0, 2, 1, 3, 0, 0, 0, 0, 0, 0, 0, 0, 0],
       elapsed_time = Scalar (7 / 2), desc = None, label = None \<rparr>"

definition params_without_g :: "string \<rightharpoonup> pynum" where
  "params_without_g = [''R'' \<mapsto> PyFloat (5 / 100), ''gamma'' \<mapsto> PyFloat (566 / 1000),
     ''tilde_g'' \<mapsto> PyFloat (11 / 1000), ''gamma_R'' \<mapsto> PyInt 10]"

definition example_kwargs :: kwargs where
  "example_kwargs = \<lparr> kw_dx = Some (1 / 10), kw_dt = Some (1 / 1000), kw_t0 = Some 0,
     kw_u0 = Some (U0Float (1 / 10)), kw_order = Some 5, kw_pumping = None,
     kw_num_nodes = Some 2, kw_num_iters = Some 10000, kw_original_params = Some params_2d \<rparr>"


section \<open>Outcomes of the constructor\<close>

text \<open>
  The five parameters \<^verbatim>\<open>Solution.__init__\<close> reads, and the two ways it can fail: a
  parameter is missing, or a parameter that is present is zero.
\<close>

definition required :: "string set" where
  "required = {''R'', ''gamma'', ''g'', ''tilde_g'', ''gamma_R''}"

definition missing_or_zero :: "(string \<rightharpoonup> pynum) \<Rightarrow> error \<Rightarrow> bool" where
  "missing_or_zero orig e =
     ((\<exists>k. k \<in> required \<and> orig k = None \<and> e = KeyError k) \<or>
      (e = ZeroDivisionError \<and> (\<exists>k v. orig k = Some v \<and> py_real v = 0)))"

section \<open>Exceptions and Python arithmetic\<close>

lemma err_bind_Inl:
  "err_bind m f = Inl e \<Longrightarrow> m = Inl e \<or> (\<exists>v. m = Inr v \<and> f v = Inl e)"
  by (cases m) (simp_all add: err_bind_def)

lemma err_bind_Inr:
  "err_bind m f = Inr r \<Longrightarrow> \<exists>v. m = Inr v \<and> f v = Inr r"
  by (cases m) (simp_all add: err_bind_def)

lemma getitem_Inl: "getitem d k = Inl e \<Longrightarrow> d k = None \<and> e = KeyError k"
  by (simp add: getitem_def split: option.splits)

lemma getitem_Inr: "getitem d k = Inr v \<Longrightarrow> d k = Some v"
  by (simp add: getitem_def split: option.splits)

lemma py_real_mul: "py_real (py_mul a b) = py_real a * py_real b"
  by (cases a; cases b) simp_all

lemma is_int_mul: "is_int (py_mul a b) = (is_int a \<and> is_int b)"
  by (cases a; cases b) simp_all

lemma py_mul_float_right: "py_mul a (PyFloat x) = PyFloat (py_real a * x)"
  by (cases a) simp_all

lemma py_div_float_right:
  "py_div a (PyFloat x) = (if x = 0 then Inl ZeroDivisionError else Inr (PyFloat (py_real a / x)))"
  by (cases a) simp_all

lemma py_div_mixed:
  "\<not> (is_int a \<and> is_int b) \<Longrightarrow>
   py_div a b =
     (if py_real b = 0 then Inl ZeroDivisionError else Inr (PyFloat (py_real a / py_real b)))"
  by (cases a; cases b) simp_all

lemma py_div_Inl: "py_div a b = Inl e \<Longrightarrow> e = ZeroDivisionError \<and> py_real b = 0"
  by (cases a; cases b) (simp_all split: if_splits)

section \<open>Rounding\<close>

lemma fl_scaled:
  fixes k :: int
  assumes "2 powr of_int (k + 52) \<le> \<bar>x\<bar>" "\<bar>x\<bar> < 2 powr of_int (k + 53)"
  shows "fl x = of_int (round_half_even (x / 2 powr of_int k)) * 2 powr of_int k"
proof -
  have pos: "0 < \<bar>x\<bar>"
    using assms(1) powr_gt_zero [of 2 "of_int (k + 52)"] by linarith
  have "\<lfloor>log 2 \<bar>x\<bar>\<rfloor> = k + 52"
    using assms pos by (subst floor_log_eq_powr_iff) (simp_all add: add.commute add.left_commute)
  then show ?thesis
    using pos by (simp add: fl_def)
qed

lemma fl_2: "fl 2 = 2"
  using fl_scaled [of "-51" 2]
  by (simp add: round_half_even_def powr_minus powr_numeral divide_simps)

lemma arange_length_two_nodes: "arange_length 0 (fl 2) 1 = 2"
  by (simp add: arange_length_def fl_2)





section \<open>Coefficient derivation\<close>

lemma Solution_init_cases:
  "Solution_init dt0 dx0 n ord iters p orig u =
     (case coeff2 orig of Inl e \<Rightarrow> Inl e | Inr c2 \<Rightarrow>
      case coeff3 orig of Inl e \<Rightarrow> Inl e | Inr c3 \<Rightarrow>
      case coeff11 orig of Inl e \<Rightarrow> Inl e | Inr c11 \<Rightarrow>
      case coeff13 orig of Inl e \<Rightarrow> Inl e | Inr c13 \<Rightarrow>
      Inr \<lparr> dt = dt0, dx = dx0, order = ord, num_nodes = n, num_iters = iters, pumping = p,
            init_sol = u, solution = None, originals = orig,
            coeffs = Arr1 ((zeros 23)[0 := 1, 1 := 1, 2 := py_real c2, 3 := py_real c3, 4 := 1,
              5 := 1, 10 := 0, 11 := py_real c11, 12 := 1, 13 := py_real c13, 14 := 0]),
            elapsed_time = Scalar 0, desc = None, label = None \<rparr>)"
  by (simp add: Solution_init_def Let_def err_bind_def split: sum.split)

lemma Solution_init_fields:
  "Solution_init dt0 dx0 n ord iters p orig u = Inr s \<Longrightarrow>
   init_sol s = u \<and> num_nodes s = n \<and> dx s = dx0 \<and> pumping s = p \<and> solution s = None"
  unfolding Solution_init_cases by (auto split: sum.splits)

lemma coeff2_ok:
  "orig ''R'' = Some R \<Longrightarrow> orig ''tilde_g'' = Some tilde_g \<Longrightarrow> py_real tilde_g \<noteq> 0 \<Longrightarrow>
   coeff2 orig = Inr (PyFloat (py_real R / (4 * py_real tilde_g)))"
  by (simp add: coeff2_def err_bind_def getitem_def py_div_float_right)

lemma coeff3_ok:
  "orig ''gamma'' = Some gamma \<Longrightarrow> coeff3 orig = Inr (PyFloat (py_real gamma * t0 / 2))"
  by (simp add: coeff3_def err_bind_def getitem_def py_mul_float_right)

lemma coeff11_ok:
  "orig ''tilde_g'' = Some tilde_g \<Longrightarrow> orig ''gamma_R'' = Some gamma_R \<Longrightarrow>
   py_real gamma_R \<noteq> 0 \<Longrightarrow>
   coeff11 orig = Inr (PyFloat (2 * py_real tilde_g * t0 / py_real gamma_R))"
  by (simp add: coeff11_def err_bind_def getitem_def py_mul_float_right)

lemma coeff13_ok:
  "orig ''R'' = Some R \<Longrightarrow> orig ''gamma_R'' = Some gamma_R \<Longrightarrow> orig ''g'' = Some g \<Longrightarrow>
   py_real gamma_R \<noteq> 0 \<Longrightarrow> py_real g \<noteq> 0 \<Longrightarrow> \<not> (is_int R \<and> is_int gamma_R \<and> is_int g) \<Longrightarrow>
   coeff13 orig = Inr (PyFloat (py_real R / (py_real gamma_R * py_real g)))"
  by (simp add: coeff13_def err_bind_def getitem_def py_div_mixed is_int_mul py_real_mul)

lemma coeffs_params_2d:
  "coeff2 params_2d = Inr (PyFloat (25 / 22))" "coeff3 params_2d = Inr (PyFloat (283 / 1000))"
  "coeff11 params_2d = Inr (PyFloat (11 / 5000))" "coeff13 params_2d = Inr (PyFloat 5)"
  by (simp_all add: coeff2_def coeff3_def coeff11_def coeff13_def params_2d_def getitem_def
      err_bind_def t0_def)

text \<open>
  C4, as the code has it: when the five parameters are present, \<^verbatim>\<open>tilde_g\<close>,
  \<^verbatim>\<open>gamma_R\<close> and \<^verbatim>\<open>g\<close> are not zero, and \<^verbatim>\<open>R\<close>, \<^verbatim>\<open>gamma_R\<close> and \<^verbatim>\<open>g\<close> are not
  all three Python ints, the constructor returns an object whose coefficient vector is a
  one-dimensional array of length 23, with the stated values in the slots 0 to 5 and 10 to
  14 and zero elsewhere.
\<close>

theorem coefficients_derived:
  assumes "orig ''R'' = Some R" "orig ''gamma'' = Some gamma" "orig ''g'' = Some g"
    "orig ''tilde_g'' = Some tilde_g" "orig ''gamma_R'' = Some gamma_R"
    "py_real tilde_g \<noteq> 0" "py_real gamma_R \<noteq> 0" "py_real g \<noteq> 0"
    "\<not> (is_int R \<and> is_int gamma_R \<and> is_int g)"
  shows "\<exists>s. Solution_init dt0 dx0 n ord iters p orig u = Inr s \<and> np_len (coeffs s) = 23 \<and>
     coeffs s = Arr1 [1, 1, py_real R / (4 * py_real tilde_g), py_real gamma * t0 / 2, 1, 1,
                 0, 0, 0, 0,
                 0, 2 * py_real tilde_g * t0 / py_real gamma_R, 1,
                 py_real R / (py_real gamma_R * py_real g), 0,
                 0, 0, 0, 0, 0, 0, 0, 0]"
proof -
  have c2: "coeff2 orig = Inr (PyFloat (py_real R / (4 * py_real tilde_g)))"
    using assms by (simp add: coeff2_ok)
  have c3: "coeff3 orig = Inr (PyFloat (py_real gamma * t0 / 2))"
    using assms by (simp add: coeff3_ok)
  have c11: "coeff11 orig = Inr (PyFloat (2 * py_real tilde_g * t0 / py_real gamma_R))"
    using assms by (simp add: coeff11_ok)
  have c13: "coeff13 orig = Inr (PyFloat (py_real R / (py_real gamma_R * py_real g)))"
    using assms by (simp add: coeff13_ok)
  show ?thesis
    by (simp add: Solution_init_cases c2 c3 c11 c13 zeros_def eval_nat_numeral)
qed

theorem coefficients_derived_witness:
  "\<exists>s. Solution_init (1 / 1000) (1 / 10) 40 5 10000 linear_profile params_2d (Arr1 []) = Inr s \<and>
     np_len (coeffs s) = 23 \<and>
     coeffs s = Arr1 [1, 1, (5 / 100) / (4 * (11 / 1000)), 283 / 1000, 1, 1, 0, 0, 0, 0,
                 0, 11 / 5000, 1, 5, 0, 0, 0, 0, 0, 0, 0, 0, 0]"
  using coefficients_derived [of params_2d "PyFloat (5 / 100)" "PyFloat (566 / 1000)"
      "PyFloat (1 / 1000)" "PyFloat (11 / 1000)" "PyInt 10" "1 / 1000" "1 / 10" 40 5 10000
      linear_profile "Arr1 []"]
  by (simp add: params_2d_def t0_def)

text \<open>
  C4 as stated fails: with \<^verbatim>\<open>tilde_g = 0.0\<close> the division in slot 2 raises and no
  coefficient vector is produced.
\<close>

theorem coefficients_zero_tilde_g_raises:
  "Solution_init (1 / 1000) (1 / 10) 40 5 10000 linear_profile
     [''R'' \<mapsto> PyFloat (5 / 100), ''gamma'' \<mapsto> PyFloat (566 / 1000),
      ''g'' \<mapsto> PyFloat (1 / 1000), ''tilde_g'' \<mapsto> PyFloat 0, ''gamma_R'' \<mapsto> PyInt 10] (Arr1 [])
   = Inl ZeroDivisionError"
  by (simp add: Solution_init_cases coeff2_def getitem_def err_bind_def)

text \<open>
  With \<^verbatim>\<open>R\<close>, \<^verbatim>\<open>gamma_R\<close> and \<^verbatim>\<open>g\<close> all ints the quotient of slot 13 is a floor
  division: for \<open>R = 1\<close>, \<open>gamma_R = 10\<close>, \<open>g = 1\<close> the slot holds \<open>0\<close>.
\<close>

lemma slot_13_of_ints:
  "coeff13 [''R'' \<mapsto> PyInt 1, ''g'' \<mapsto> PyInt 1, ''gamma_R'' \<mapsto> PyInt 10] = Inr (PyInt 0)"
  by (simp add: coeff13_def getitem_def err_bind_def)

section \<open>Missing parameters\<close>

lemma missing_key: "k \<in> required \<Longrightarrow> getitem orig k = Inl e \<Longrightarrow> missing_or_zero orig e"
  unfolding missing_or_zero_def by (blast dest: getitem_Inl)

lemma zero_divisor:
  "orig k = Some v \<Longrightarrow> py_real v = 0 \<Longrightarrow> missing_or_zero orig ZeroDivisionError"
  unfolding missing_or_zero_def by blast

lemma coeff2_Inl:
  assumes "coeff2 orig = Inl e"
  shows "missing_or_zero orig e"
proof -
  consider "getitem orig ''R'' = Inl e"
    | "getitem orig ''tilde_g'' = Inl e"
    | R g where "getitem orig ''tilde_g'' = Inr g" "py_div R (py_mul (PyFloat 4) g) = Inl e"
    using assms unfolding coeff2_def by (blast dest: err_bind_Inl)
  then show ?thesis
  proof cases
    case 1
    then show ?thesis by (rule missing_key [rotated]) (simp add: required_def)
  next
    case 2
    then show ?thesis by (rule missing_key [rotated]) (simp add: required_def)
  next
    case 3
    from py_div_Inl [OF 3(2)] have "e = ZeroDivisionError" "py_real g = 0"
      by (simp_all add: py_real_mul)
    with getitem_Inr [OF 3(1)] show ?thesis by (simp add: zero_divisor)
  qed
qed

lemma coeff3_Inl:
  assumes "coeff3 orig = Inl e"
  shows "missing_or_zero orig e"
proof -
  consider "getitem orig ''gamma'' = Inl e"
    | g where "py_div (py_mul g (PyFloat t0)) (PyInt 2) = Inl e"
    using assms unfolding coeff3_def by (blast dest: err_bind_Inl)
  then show ?thesis
  proof cases
    case 1
    then show ?thesis by (rule missing_key [rotated]) (simp add: required_def)
  next
    case 2
    from py_div_Inl [OF 2] show ?thesis by simp
  qed
qed

lemma coeff11_Inl:
  assumes "coeff11 orig = Inl e"
  shows "missing_or_zero orig e"
proof -
  consider "getitem orig ''tilde_g'' = Inl e"
    | "getitem orig ''gamma_R'' = Inl e"
    | g r where "getitem orig ''gamma_R'' = Inr r"
        "py_div (py_mul (py_mul (PyFloat 2) g) (PyFloat t0)) r = Inl e"
    using assms unfolding coeff11_def by (blast dest: err_bind_Inl)
  then show ?thesis
  proof cases
    case 1
    then show ?thesis by (rule missing_key [rotated]) (simp add: required_def)
  next
    case 2
    then show ?thesis by (rule missing_key [rotated]) (simp add: required_def)
  next
    case 3
    from py_div_Inl [OF 3(2)] getitem_Inr [OF 3(1)] show ?thesis
      by (simp add: zero_divisor)
  qed
qed

lemma coeff13_Inl:
  assumes "coeff13 orig = Inl e"
  shows "missing_or_zero orig e"
proof -
  consider "getitem orig ''R'' = Inl e"
    | "getitem orig ''gamma_R'' = Inl e"
    | "getitem orig ''g'' = Inl e"
    | R r g where "getitem orig ''gamma_R'' = Inr r" "getitem orig ''g'' = Inr g"
        "py_div R (py_mul r g) = Inl e"
    using assms unfolding coeff13_def by (blast dest: err_bind_Inl)
  then show ?thesis
  proof cases
    case 1
    then show ?thesis by (rule missing_key [rotated]) (simp add: required_def)
  next
    case 2
    then show ?thesis by (rule missing_key [rotated]) (simp add: required_def)
  next
    case 3
    then show ?thesis by (rule missing_key [rotated]) (simp add: required_def)
  next
    case 4
    from py_div_Inl [OF 4(3)] have "e = ZeroDivisionError" and "py_real r = 0 \<or> py_real g = 0"
      by (simp_all add: py_real_mul)
    then show ?thesis
      using getitem_Inr [OF 4(1)] getitem_Inr [OF 4(2)] by (auto intro: zero_divisor)
  qed
qed

lemma coeff2_Inr: "coeff2 orig = Inr v \<Longrightarrow> orig ''R'' \<noteq> None \<and> orig ''tilde_g'' \<noteq> None"
  unfolding coeff2_def by (fastforce dest!: err_bind_Inr getitem_Inr)

lemma coeff3_Inr: "coeff3 orig = Inr v \<Longrightarrow> orig ''gamma'' \<noteq> None"
  unfolding coeff3_def by (fastforce dest!: err_bind_Inr getitem_Inr)

lemma coeff11_Inr: "coeff11 orig = Inr v \<Longrightarrow> orig ''gamma_R'' \<noteq> None"
  unfolding coeff11_def by (fastforce dest!: err_bind_Inr getitem_Inr)

lemma coeff13_Inr: "coeff13 orig = Inr v \<Longrightarrow> orig ''g'' \<noteq> None"
  unfolding coeff13_def by (fastforce dest!: err_bind_Inr getitem_Inr)

lemma Solution_init_Inl:
  "Solution_init dt0 dx0 n ord iters p orig u = Inl e \<Longrightarrow> missing_or_zero orig e"
  unfolding Solution_init_cases
  by (simp split: sum.splits add: coeff2_Inl coeff3_Inl coeff11_Inl coeff13_Inl)

lemma Solution_init_Inr:
  "Solution_init dt0 dx0 n ord iters p orig u = Inr s \<Longrightarrow> k \<in> required \<Longrightarrow> orig k \<noteq> None"
  unfolding Solution_init_cases required_def
  by (auto split: sum.splits dest: coeff2_Inr coeff3_Inr coeff11_Inr coeff13_Inr)

text \<open>
  C6, as the code has it: when one of the five parameters is absent the constructor
  raises and no object is produced. The exception is the \<^verbatim>\<open>KeyError\<close> of an absent
  parameter, or a \<^verbatim>\<open>ZeroDivisionError\<close>, which needs a parameter that is present and
  zero.
\<close>

theorem missing_parameter_fails:
  assumes "k \<in> {''R'', ''gamma'', ''g'', ''tilde_g'', ''gamma_R''}" and "orig k = None"
  shows "\<exists>e. Solution_init dt0 dx0 n ord iters p orig u = Inl e \<and>
           (e = ZeroDivisionError \<and> (\<exists>k' v. orig k' = Some v \<and> py_real v = 0) \<or>
            (\<exists>k'. k' \<in> {''R'', ''gamma'', ''g'', ''tilde_g'', ''gamma_R''} \<and> orig k' = None \<and>
                  e = KeyError k'))"
proof (cases "Solution_init dt0 dx0 n ord iters p orig u")
  case (Inl e)
  from Solution_init_Inl [OF Inl] show ?thesis
    unfolding Inl missing_or_zero_def required_def by blast
next
  case (Inr s)
  from Solution_init_Inr [OF Inr, of k] assms show ?thesis
    by (simp add: required_def)
qed

theorem missing_parameter_fails_witness:
  "''g'' \<in> {''R'', ''gamma'', ''g'', ''tilde_g'', ''gamma_R''} \<and> params_without_g ''g'' = None \<and>
   Solution_init (1 / 1000) (1 / 10) 40 5 10000 linear_profile params_without_g (Arr1 [])
     = Inl (KeyError ''g'')"
  using missing_parameter_fails [of "''g''" params_without_g "1 / 1000" "1 / 10" 40 5 10000
      linear_profile "Arr1 []"]
  by (simp add: Solution_init_cases coeff2_def coeff3_def coeff11_def coeff13_def getitem_def
      err_bind_def params_without_g_def)

text \<open>
  C6 as stated fails: with \<^verbatim>\<open>g\<close> absent and \<^verbatim>\<open>tilde_g = 0.0\<close> the constructor
  raises \<^verbatim>\<open>ZeroDivisionError\<close> in slot 2, before it reads \<^verbatim>\<open>g\<close>.
\<close>

theorem missing_parameter_zero_division_first:
  "[''R'' \<mapsto> PyFloat 1, ''gamma'' \<mapsto> PyFloat 1, ''tilde_g'' \<mapsto> PyFloat 0,
    ''gamma_R'' \<mapsto> PyFloat 1] ''g'' = None \<and>
   Solution_init (1 / 1000) (1 / 10) 40 5 10000 linear_profile
     [''R'' \<mapsto> PyFloat 1, ''gamma'' \<mapsto> PyFloat 1, ''tilde_g'' \<mapsto> PyFloat 0,
      ''gamma_R'' \<mapsto> PyFloat 1]
     (Arr1 []) = Inl ZeroDivisionError"
  by (simp add: Solution_init_cases coeff2_def getitem_def err_bind_def)

section \<open>Arrays and coordinates\<close>

lemma upt_0_2: "[0..<2] = [0, Suc 0]"
  by (simp add: numeral_2_eq_2)

lemma length_linspace: "length (linspace a b n) = n"
  by (simp add: linspace_def)

lemma linspace_nth:
  "i < n \<Longrightarrow> n \<noteq> 1 \<Longrightarrow> linspace a b n ! i = a + real i * ((b - a) / real (n - 1))"
  by (simp add: linspace_def)

lemma linspace_ends:
  assumes "1 < n"
  shows "linspace a b n ! 0 = a" and "linspace a b n ! (n - 1) = b"
  using assms by (simp_all add: linspace_nth)

lemma call2_meshgrid:
  "call2 p (fst (meshgrid xs ys)) (snd (meshgrid xs ys)) =
     map (\<lambda>y. map (\<lambda>x. at_point p x y) xs) ys"
  by (simp add: call2_def meshgrid_def list_eq_iff_nth_eq)

lemma length_mesh_samples: "length (mesh_samples p xs) = (length xs)\<^sup>2"
  by (simp add: mesh_samples_def length_concat comp_def sum_list_triv power2_eq_square)

lemma reshape1_mesh:
  "length xs = n \<Longrightarrow>
   reshape1 (n\<^sup>2) (map (\<lambda>y. map (\<lambda>x. at_point p x y) xs) xs) = Inr (mesh_samples p xs)"
  using length_mesh_samples [of p xs] by (simp add: reshape1_def mesh_samples_def)

section \<open>Sampling the pumping profile\<close>

lemma getPumping_eq:
  "getPumping s =
     (if np_len (init_sol s) = (num_nodes s)\<^sup>2
      then Inr (mesh_samples (pumping s)
             (linspace (- (real (num_nodes s) * dx s / 2)) (real (num_nodes s) * dx s / 2)
                (num_nodes s)))
      else Inr (map (at_radius (pumping s))
             (linspace 0 (real (num_nodes s) * dx s) (num_nodes s))))"
  by (auto simp add: getPumping_def Let_def call2_meshgrid reshape1_mesh length_linspace call1_def)

text \<open>
  C2, as the code has it, for an initial field that is a one-dimensional array: a field
  whose length is the square of the node count is sampled on the centred square mesh; a
  field of any other length, equal to the node count or not, is sampled on the radial
  nodes, and no error is raised for it.
\<close>

theorem getPumping_by_field_length:
  assumes "init_sol s = Arr1 f"
  shows "getPumping s =
     (if length f = (num_nodes s)\<^sup>2
      then Inr (mesh_samples (pumping s)
             (linspace (- (real (num_nodes s) * dx s / 2)) (real (num_nodes s) * dx s / 2)
                (num_nodes s)))
      else Inr (map (at_radius (pumping s))
             (linspace 0 (real (num_nodes s) * dx s) (num_nodes s))))"
  using assms by (simp add: getPumping_eq)

theorem getPumping_by_field_length_witness:
  "init_sol (example_solution 2 (Arr1 [0, 0, 0, 0])) = Arr1 [0, 0, 0, 0] \<and>
   getPumping (example_solution 2 (Arr1 [0, 0, 0, 0])) = Inr [- 11, - 9, 9, 11]"
  using getPumping_by_field_length [of "example_solution 2 (Arr1 [0, 0, 0, 0])" "[0, 0, 0, 0]"]
  by (simp add: example_solution_def linear_profile_def linspace_def mesh_samples_def upt_0_2)

text \<open>
  C2 as stated fails: with two nodes, a field of length three is neither of length two nor
  of length four, and \<^verbatim>\<open>getPumping\<close> returns the radial samples instead of raising.
\<close>

theorem getPumping_other_length_no_error:
  "getPumping (example_solution 2 (Arr1 [0, 0, 0])) = Inr [0, 2]"
  by (simp add: getPumping_def example_solution_def linear_profile_def linspace_def call1_def
      Let_def upt_0_2)

text \<open>
  C5 at a concrete input: with \<open>dx = 1\<close> and two nodes the radial coordinates of
  \<^verbatim>\<open>getPumping\<close> are \<open>0\<close> and \<open>2\<close>, the end point \<open>dx * num_nodes\<close> included and
  the spacing twice \<open>dx\<close>; \<^verbatim>\<open>visualize\<close> samples the same object at \<open>0\<close> and \<open>1\<close>.
\<close>

theorem getPumping_radial_coordinates_include_end:
  "getPumping (example_solution 2 (Arr1 [0, 0])) = Inr [0, 2] \<and>
   map_sum id plot_x (visualize (example_solution 2 (Arr1 [0, 0]))) = Inr [0, 1]"
  by (simp add: getPumping_def visualize_def example_solution_def arange_def err_bind_def
      Let_def coeff_row_def call1_def linear_profile_def broadcast1_def linspace_def upt_0_2
      arange_length_two_nodes density_def)

text \<open>
  The radial coordinates in general: with more than one node the last one is
  \<open>dx * num_nodes\<close> itself and neighbours are \<open>dx * num_nodes / (num_nodes - 1)\<close> apart.
  The axis of the square mesh runs from \<open>- num_nodes * dx / 2\<close> to \<open>num_nodes * dx / 2\<close>.
\<close>

lemma radial_coordinates:
  assumes "1 < n"
  shows "linspace 0 (real n * d) n ! (n - 1) = real n * d"
    and "i < n \<Longrightarrow> linspace 0 (real n * d) n ! i = real i * (real n * d / real (n - 1))"
  using assms by (simp_all add: linspace_nth)

lemma mesh_axis:
  assumes "1 < n"
  shows "linspace (- (real n * d / 2)) (real n * d / 2) n ! 0 = - (real n * d / 2)"
    and "linspace (- (real n * d / 2)) (real n * d / 2) n ! (n - 1) = real n * d / 2"
  by (rule linspace_ends(1) [OF assms], rule linspace_ends(2) [OF assms])

text \<open>
  C9: when the length of the initial field is the square of the node count, also for no
  node and for one node, \<^verbatim>\<open>getPumping\<close> returns the samples on the centred square
  mesh, flattened to that length.
\<close>

theorem square_length_selects_mesh:
  assumes "np_len (init_sol s) = (num_nodes s)\<^sup>2"
  shows "\<exists>r. getPumping s = Inr r \<and>
           r = mesh_samples (pumping s)
                 (linspace (- (real (num_nodes s) * dx s / 2)) (real (num_nodes s) * dx s / 2)
                    (num_nodes s)) \<and>
           length r = (num_nodes s)\<^sup>2"
  using assms by (simp add: getPumping_eq length_mesh_samples length_linspace)

theorem square_length_selects_mesh_witness:
  "np_len (init_sol (example_solution 1 (Arr1 [0]))) = (num_nodes (example_solution 1 (Arr1 [0])))\<^sup>2 \<and>
   (\<exists>r. getPumping (example_solution 1 (Arr1 [0])) = Inr r \<and> r = [- 11 / 2] \<and> length r = 1)"
  using square_length_selects_mesh [of "example_solution 1 (Arr1 [0])"]
  by (simp add: example_solution_def linear_profile_def linspace_def mesh_samples_def)

section \<open>Histories of calls\<close>

lemma run_call_frame:
  "dx (snd (run_call c s)) = dx s \<and> num_nodes (snd (run_call c s)) = num_nodes s \<and>
   init_sol (snd (run_call c s)) = init_sol s"
  by (cases c) (simp_all add: setPumping_def)

lemma run_calls_frame:
  "dx (run_calls cs s) = dx s \<and> num_nodes (run_calls cs s) = num_nodes s \<and>
   init_sol (run_calls cs s) = init_sol s"
  by (induction cs arbitrary: s) (simp_all add: run_call_frame)

lemma run_calls_snoc: "run_calls (cs @ [c]) s = snd (run_call c (run_calls cs s))"
  by (induction cs arbitrary: s) simp_all

text \<open>
  C7: after any history of \<^verbatim>\<open>setPumping\<close> and \<^verbatim>\<open>getPumping\<close> calls,
  \<^verbatim>\<open>setPumping(p)\<close> followed by \<^verbatim>\<open>getPumping()\<close> returns the sample of \<open>p\<close> over
  the grid of the object; nothing of the earlier profiles or samples remains.
\<close>

theorem getPumping_not_cached:
  "fst (run_call GetPumping (run_calls (cs @ [SetPumping p]) s)) =
     Some (if np_len (init_sol s) = (num_nodes s)\<^sup>2
           then Inr (mesh_samples p
                  (linspace (- (real (num_nodes s) * dx s / 2)) (real (num_nodes s) * dx s / 2)
                     (num_nodes s)))
           else Inr (map (at_radius p) (linspace 0 (real (num_nodes s) * dx s) (num_nodes s))))"
  by (simp add: run_calls_snoc getPumping_eq setPumping_def run_calls_frame)

section \<open>The reservoir density\<close>















text \<open>
  A field of two rows against the two coordinates: the quotient is taken in every row.
\<close>

lemma visualize_square_field:
  "visualize (example_solution 2 (Arr2 [[1, 2], [3, 4]])) =
     Inr \<lparr> plot_x = [0, 1], plot_p = [0, 1], plot_u = Arr2 [[1, 4], [9, 16]],
           plot_n = Arr2 [[Finite 0, Finite (2 / 13)], [Finite 0, Finite (2 / 49)]] \<rparr>"
  by (simp add: visualize_def example_solution_def arange_def err_bind_def Let_def
      coeff_row_def call1_def linear_profile_def broadcast1_def upt_0_2 true_divide_def
      arange_length_two_nodes density_def)



section \<open>Store and restore\<close>

lemma transpose_row: "transpose [xs] = map (\<lambda>x. [x]) xs"
  by (induction xs) simp_all

lemma store_with_field:
  assumes "solution s = Some f"
  shows "store fs earlier s filename label0 desc0 date =
     (None, fs(store_filename filename date \<mapsto>
        \<lparr> var_desc = Some (char_array desc0),
          var_dimlesses = Some (at_least_2d (coeffs s)),
          var_elapsed_time = Some (value_2d (elapsed_time s)),
          var_label = Some (char_array label0),
          var_originals = Some (originals s),
          var_pumping = Some [case getPumping s of Inr v \<Rightarrow> v | Inl e \<Rightarrow> []],
          var_solution = Some (at_least_2d f) \<rparr>))"
  using assms
  by (simp add: store_def Let_def getPumping_eq savemat_def other_variables_def)

text \<open>A state without a current field cannot be stored.\<close>

lemma store_without_field:
  "solution s = None \<Longrightarrow> fst (store fs earlier s filename label0 desc0 date) = Some TypeError"
  by (simp add: store_def Let_def getPumping_eq savemat_def)

text \<open>
  C1, as the code has it: for a state with a current field, \<^verbatim>\<open>store\<close> followed by
  \<^verbatim>\<open>restore\<close> of the same file, on any object, returns with the entries of the
  coefficients, of the elapsed time and of the field, each as the transpose of the
  two-dimensional array the file gives back: a coefficient vector as a column, a float as
  an array of one row and one entry, a one-dimensional field as a column, a
  two-dimensional field transposed.
\<close>

theorem store_restore_round_trip:
  assumes "solution s = Some f"
  shows "\<exists>fs'. store fs earlier s filename label0 desc0 date = (None, fs') \<and>
     fst (restore fs' (store_filename filename date) s') = None \<and>
     coeffs (snd (restore fs' (store_filename filename date) s')) =
       Arr2 (transpose (at_least_2d (coeffs s))) \<and>
     elapsed_time (snd (restore fs' (store_filename filename date) s')) =
       Array (Arr2 (value_2d (elapsed_time s))) \<and>
     solution (snd (restore fs' (store_filename filename date) s')) =
       Some (Arr2 (transpose (at_least_2d f))) \<and>
     (\<forall>c. coeffs s = Arr1 c \<longrightarrow>
        coeffs (snd (restore fs' (store_filename filename date) s')) = Arr2 (map (\<lambda>v. [v]) c)) \<and>
     (\<forall>t. elapsed_time s = Scalar t \<longrightarrow>
        elapsed_time (snd (restore fs' (store_filename filename date) s')) = Array (Arr2 [[t]])) \<and>
     (\<forall>xs. f = Arr1 xs \<longrightarrow>
        solution (snd (restore fs' (store_filename filename date) s')) =
          Some (Arr2 (map (\<lambda>v. [v]) xs)))"
  by (simp add: store_with_field [OF assms] restore_def loadmat_def Let_def transpose_row)

theorem store_restore_round_trip_witness:
  "solution (example_solution 2 (Arr1 [1, Complex 0 2])) = Some (Arr1 [1, Complex 0 2]) \<and>
   (\<exists>fs'. store Map.empty {} (example_solution 2 (Arr1 [1, Complex 0 2])) (Some ''state.mat'')
            [] [] ''2016-01-01'' = (None, fs') \<and>
      fst (restore fs' ''state.mat'' (example_solution 0 (Arr1 []))) = None \<and>
      coeffs (snd (restore fs' ''state.mat'' (example_solution 0 (Arr1 [])))) =
        Arr2 [[1], [1], [25 / 22], [283 / 1000], [1], [1], [0], [0], [0], [0], [0], [2], [1],
              [3], [0], [0], [0], [0], [0], [0], [0], [0], [0]] \<and>
      elapsed_time (snd (restore fs' ''state.mat'' (example_solution 0 (Arr1 [])))) =
        Array (Arr2 [[7 / 2]]) \<and>
      solution (snd (restore fs' ''state.mat'' (example_solution 0 (Arr1 [])))) =
        Some (Arr2 [[1], [Complex 0 2]]))"
  using store_restore_round_trip [of "example_solution 2 (Arr1 [1, Complex 0 2])"
      "Arr1 [1, Complex 0 2]" Map.empty "{}" "Some ''state.mat''" "[]" "[]" "''2016-01-01''"
      "example_solution 0 (Arr1 [])"]
  by (clarsimp simp add: example_solution_def store_filename_def)

text \<open>
  C1 as stated fails: after \<^verbatim>\<open>store\<close> and \<^verbatim>\<open>restore\<close> the parameter dictionary is
  empty, while the state stored had \<^verbatim>\<open>R = 0.05\<close>.
\<close>

theorem restore_forgets_originals:
  "\<exists>fs'. store Map.empty {} (example_solution 2 (Arr1 [1, 2])) (Some ''state.mat'')
            [] [] ''2016-01-01'' = (None, fs') \<and>
      fst (restore fs' ''state.mat'' (example_solution 2 (Arr1 [1, 2]))) = None \<and>
      originals (snd (restore fs' ''state.mat'' (example_solution 2 (Arr1 [1, 2])))) ''R'' = None \<and>
      originals (example_solution 2 (Arr1 [1, 2])) ''R'' = Some (PyFloat (5 / 100))"
  by (simp add: store_with_field restore_def loadmat_def Let_def store_filename_def
      example_solution_def params_2d_def)

text \<open>
  A square field is not reproduced when it is not symmetric: it comes back transposed.
\<close>

lemma restore_transposes_square_field:
  "\<exists>fs'. store Map.empty {} (example_solution 2 (Arr2 [[1, 2], [3, 4]])) (Some ''state.mat'')
            [] [] ''2016-01-01'' = (None, fs') \<and>
      solution (snd (restore fs' ''state.mat'' (example_solution 2 (Arr2 [[1, 2], [3, 4]])))) =
        Some (Arr2 [[1, 3], [2, 4]])"
  by (simp add: store_with_field restore_def loadmat_def Let_def store_filename_def
      example_solution_def transpose.simps)

text \<open>
  C10: whether it returns or raises, \<^verbatim>\<open>restore\<close> leaves \<^verbatim>\<open>dt\<close>, \<^verbatim>\<open>dx\<close>,
  \<^verbatim>\<open>order\<close>, \<^verbatim>\<open>num_nodes\<close>, \<^verbatim>\<open>num_iters\<close>, \<^verbatim>\<open>pumping\<close> and \<^verbatim>\<open>init_sol\<close> as
  they were before the call.
\<close>

theorem restore_frame:
  "dt (snd (restore fs filename s)) = dt s \<and>
   dx (snd (restore fs filename s)) = dx s \<and>
   order (snd (restore fs filename s)) = order s \<and>
   num_nodes (snd (restore fs filename s)) = num_nodes s \<and>
   num_iters (snd (restore fs filename s)) = num_iters s \<and>
   pumping (snd (restore fs filename s)) = pumping s \<and>
   init_sol (snd (restore fs filename s)) = init_sol s"
  by (simp add: restore_def Let_def split: sum.split option.split)

section \<open>The initial field of the factory\<close>

lemma Model_init_fields:
  "Model_init cls dt0 dx0 ord n iters p params u = Inr m \<Longrightarrow>
   init_sol (model_solution m) = u \<and> num_nodes (model_solution m) = n \<and> model_solver m = cls"
  unfolding Model_init_def
  by (auto split: option.splits dest!: err_bind_Inr Solution_init_fields)

text \<open>
  C8: when the factory returns a model for a given \<^verbatim>\<open>u0\<close>, the initial field of its
  solution is, for an int, float or complex \<^verbatim>\<open>u0\<close>, the array of \<^verbatim>\<open>num_nodes\<close> copies of
  it in the 1D model and of \<^verbatim>\<open>num_nodes\<close> rows of \<^verbatim>\<open>num_nodes\<close> copies in the 2D model,
  and for an array \<^verbatim>\<open>u0\<close> that array; \<^verbatim>\<open>num_nodes\<close> is the one given, or 1000 and 40.
\<close>

theorem scalar_u0_broadcast:
  assumes "kw_u0 kw = Some v"
  shows "(\<forall>m. fabricateModel1D gp kw = Inr m \<longrightarrow>
            init_sol (model_solution m) =
              (case v of U0Int i \<Rightarrow> Arr1 (replicate (num_nodes (model_solution m)) (of_int i))
               | U0Float r \<Rightarrow> Arr1 (replicate (num_nodes (model_solution m)) (complex_of_real r))
               | U0Complex c \<Rightarrow> Arr1 (replicate (num_nodes (model_solution m)) c)
               | U0Array a \<Rightarrow> a) \<and>
            num_nodes (model_solution m) = (case kw_num_nodes kw of None \<Rightarrow> 1000 | Some n \<Rightarrow> n)) \<and>
         (\<forall>m. fabricateModel2D gp kw = Inr m \<longrightarrow>
            init_sol (model_solution m) =
              (case v of
                 U0Int i \<Rightarrow> Arr2 (replicate (num_nodes (model_solution m))
                                     (replicate (num_nodes (model_solution m)) (of_int i)))
               | U0Float r \<Rightarrow> Arr2 (replicate (num_nodes (model_solution m))
                                     (replicate (num_nodes (model_solution m)) (complex_of_real r)))
               | U0Complex c \<Rightarrow> Arr2 (replicate (num_nodes (model_solution m))
                                     (replicate (num_nodes (model_solution m)) c))
               | U0Array a \<Rightarrow> a) \<and>
            num_nodes (model_solution m) = (case kw_num_nodes kw of None \<Rightarrow> 40 | Some n \<Rightarrow> n))"
proof (intro conjI allI impI)
  fix m assume "fabricateModel1D gp kw = Inr m"
  from Model_init_fields [OF this [unfolded fabricateModel1D_def Let_def]] assms
  show "init_sol (model_solution m) =
              (case v of U0Int i \<Rightarrow> Arr1 (replicate (num_nodes (model_solution m)) (of_int i))
               | U0Float r \<Rightarrow> Arr1 (replicate (num_nodes (model_solution m)) (complex_of_real r))
               | U0Complex c \<Rightarrow> Arr1 (replicate (num_nodes (model_solution m)) c)
               | U0Array a \<Rightarrow> a)"
    and "num_nodes (model_solution m) = (case kw_num_nodes kw of None \<Rightarrow> 1000 | Some n \<Rightarrow> n)"
    by (cases v; simp add: ones_def)+
next
  fix m assume "fabricateModel2D gp kw = Inr m"
  from Model_init_fields [OF this [unfolded fabricateModel2D_def Let_def]] assms
  show "init_sol (model_solution m) =
              (case v of
                 U0Int i \<Rightarrow> Arr2 (replicate (num_nodes (model_solution m))
                                     (replicate (num_nodes (model_solution m)) (of_int i)))
               | U0Float r \<Rightarrow> Arr2 (replicate (num_nodes (model_solution m))
                                     (replicate (num_nodes (model_solution m)) (complex_of_real r)))
               | U0Complex c \<Rightarrow> Arr2 (replicate (num_nodes (model_solution m))
                                     (replicate (num_nodes (model_solution m)) c))
               | U0Array a \<Rightarrow> a)"
    and "num_nodes (model_solution m) = (case kw_num_nodes kw of None \<Rightarrow> 40 | Some n \<Rightarrow> n)"
    by (cases v; simp add: ones2_def)+
qed

theorem scalar_u0_broadcast_witness:
  "kw_u0 example_kwargs = Some (U0Float (1 / 10)) \<and>
   (\<exists>m. fabricateModel1D linear_profile example_kwargs = Inr m \<and>
        init_sol (model_solution m) = Arr1 [1 / 10, 1 / 10]) \<and>
   (\<exists>m. fabricateModel2D linear_profile example_kwargs = Inr m \<and>
        init_sol (model_solution m) = Arr2 [[1 / 10, 1 / 10], [1 / 10, 1 / 10]])"
  using scalar_u0_broadcast [of example_kwargs "U0Float (1 / 10)" linear_profile]
  by (simp add: example_kwargs_def fabricateModel1D_def fabricateModel2D_def Model_init_def
      Solution_init_cases coeffs_params_2d err_bind_def ones_def ones2_def numeral_2_eq_2)

text \<open>
  The factory returns a model exactly when the parameters are given and the constructor
  of the solution accepts them.
\<close>

lemma Solution_init_returns:
  "(\<exists>s. Solution_init dt0 dx0 n ord iters p orig u = Inr s) \<longleftrightarrow>
   (\<exists>a b c d. coeff2 orig = Inr a \<and> coeff3 orig = Inr b \<and> coeff11 orig = Inr c \<and>
      coeff13 orig = Inr d)"
  unfolding Solution_init_cases
  by (cases "coeff2 orig"; cases "coeff3 orig"; cases "coeff11 orig"; cases "coeff13 orig")
    simp_all

lemma Model_init_returns:
  "(\<exists>m. Model_init cls dt0 dx0 ord n iters p params u = Inr m) \<longleftrightarrow>
   (\<exists>orig. params = Some orig \<and> (\<exists>s. Solution_init dt0 dx0 n ord iters p orig u = Inr s))"
proof (cases params)
  case None
  then show ?thesis by (simp add: Model_init_def)
next
  case (Some orig)
  then show ?thesis
    by (cases "Solution_init dt0 dx0 n ord iters p orig u")
      (simp_all add: Model_init_def err_bind_def)
qed

lemma fabricateModel1D_returns:
  "(\<exists>m. fabricateModel1D gp kw = Inr m) \<longleftrightarrow>
   (\<exists>orig. kw_original_params kw = Some orig \<and>
      (\<exists>a b c d. coeff2 orig = Inr a \<and> coeff3 orig = Inr b \<and> coeff11 orig = Inr c \<and>
         coeff13 orig = Inr d))"
  unfolding fabricateModel1D_def Let_def Model_init_returns Solution_init_returns ..

lemma fabricateModel2D_returns:
  "(\<exists>m. fabricateModel2D gp kw = Inr m) \<longleftrightarrow>
   (\<exists>orig. kw_original_params kw = Some orig \<and>
      (\<exists>a b c d. coeff2 orig = Inr a \<and> coeff3 orig = Inr b \<and> coeff11 orig = Inr c \<and>
         coeff13 orig = Inr d))"
  unfolding fabricateModel2D_def Let_def Model_init_returns Solution_init_returns ..

text \<open>
  For a scalar \<^verbatim>\<open>u0\<close> the field of the 2D model has \<^verbatim>\<open>num_nodes\<close> rows, so its \<^verbatim>\<open>len\<close>
  is \<^verbatim>\<open>num_nodes\<close> and not its square.
\<close>

lemma scalar_field_2d_len:
  assumes "fabricateModel2D gp kw = Inr m" and "kw_u0 kw = Some (U0Float r)"
  shows "np_len (init_sol (model_solution m)) = num_nodes (model_solution m)"
  using Model_init_fields [OF assms(1) [unfolded fabricateModel2D_def Let_def]] assms(2)
  by (simp add: ones2_def)

end
